theory Spec2Isabelle
  imports Main
begin

section \<open>The provider health query of the OpenRAG frontend\<close>

text \<open>
  The development embeds \<^verbatim>\<open>frontend/app/api/queries/useProviderHealthQuery.ts\<close>:
  the health check \<^verbatim>\<open>checkProviderHealth\<close>, the \<^verbatim>\<open>refetchInterval\<close> callback with
  its module-level \<^verbatim>\<open>failureCountMap\<close>, and the options object handed to the query
  library.
\<close>

subsection \<open>Data model\<close>

text \<open>The union type of \<^verbatim>\<open>ProviderHealthResponse.status\<close>.\<close>

datatype HealthStatus = Healthy | Unhealthy | ErrorStatus | BackendUnavailable

text \<open>A property declared \<^verbatim>\<open>T | null\<close>.\<close>

datatype 'a nullable = Null | Value 'a

record ProviderHealthDetails =
  llm_model :: string
  embedding_model :: string
  endpoint :: "string nullable option"

text \<open>
  The interface \<^verbatim>\<open>ProviderHealthResponse\<close>. A property that is undefined or missing is
  \<open>None\<close>. The interface declares \<^verbatim>\<open>status\<close> and \<^verbatim>\<open>message\<close> as mandatory, but the
  value of \<^verbatim>\<open>response.json()\<close> has type \<^verbatim>\<open>any\<close>: it is returned as a
  \<^verbatim>\<open>ProviderHealthResponse\<close> on the success path and read as \<^verbatim>\<open>errorData\<close> on the
  failure paths without any check, so every property is optional here. Bodies are JSON
  objects read at the declared properties, with the declared value types.
\<close>

record ProviderHealthResponse =
  status :: "HealthStatus option"
  message :: "string option"
  provider :: "string option"
  llm_provider :: "string option"
  embedding_provider :: "string option"
  llm_error :: "string nullable option"
  embedding_error :: "string nullable option"
  details :: "ProviderHealthDetails option"

text \<open>The union type of \<^verbatim>\<open>ProviderHealthParams.provider\<close> and the strings it stands for.\<close>

datatype Provider = Openai | Ollama | Watsonx

fun provider_name :: "Provider \<Rightarrow> string" where
  "provider_name Openai = ''openai''"
| "provider_name Ollama = ''ollama''"
| "provider_name Watsonx = ''watsonx''"

record ProviderHealthParams =
  params_provider :: "Provider option"

subsection \<open>The failure counter and the refetch interval\<close>

text \<open>
  \<^verbatim>\<open>const failureCountMap = new Map<string, number>()\<close>: a map from keys to numbers.
  The numbers are modelled as unbounded integers (the callback only ever stores \<open>0\<close> or
  a successor, which is exact in a JavaScript number below \<open>2^53\<close>).
\<close>

type_synonym failure_counts = "string \<rightharpoonup> int"

definition queryKey :: "string list" where
  "queryKey = [''provider'', ''health'']"

text \<open>\<^verbatim>\<open>Array.prototype.join\<close> on an array of strings.\<close>

fun join :: "string list \<Rightarrow> string \<Rightarrow> string" where
  "join [] sep = []"
| "join [x] sep = x"
| "join (x # y # ys) sep = x @ sep @ join (y # ys) sep"

definition failureCountKey :: string where
  "failureCountKey = join queryKey ''-''"

definition backoffDelays :: "int list" where
  "backoffDelays = [5000, 10000, 20000, 30000]"

text \<open>
  Reading a JavaScript array at a number: an index outside the array gives
  \<^verbatim>\<open>undefined\<close>, which is \<open>None\<close>.
\<close>

definition js_index :: "'a list \<Rightarrow> int \<Rightarrow> 'a option" where
  "js_index xs i = (if 0 \<le> i \<and> i < int (length xs) then Some (xs ! nat i) else None)"

text \<open>\<^verbatim>\<open>failureCountMap.get(failureCountKey) || 0\<close>: undefined and \<open>0\<close> both give \<open>0\<close>.\<close>

definition get_or_zero :: "failure_counts \<Rightarrow> string \<Rightarrow> int" where
  "get_or_zero m k = (case m k of None \<Rightarrow> 0 | Some v \<Rightarrow> if v = 0 then 0 else v)"

text \<open>
  The \<^verbatim>\<open>refetchInterval\<close> callback. Its argument is \<^verbatim>\<open>query.state.data\<close>, which is
  undefined until a check has completed; the failure counters are passed in and returned.
  The result is the delay in milliseconds, a number or \<^verbatim>\<open>undefined\<close>.
\<close>

definition refetchInterval ::
  "ProviderHealthResponse option \<Rightarrow> failure_counts \<Rightarrow> int option \<times> failure_counts" where
  "refetchInterval data m =
     (let st = (case data of None \<Rightarrow> None | Some d \<Rightarrow> status d) in
      if st = Some Healthy then (Some 30000, m(failureCountKey \<mapsto> 0))
      else if st = Some BackendUnavailable then (Some 15000, m)
      else
        let currentFailures = get_or_zero m failureCountKey;
            m' = m(failureCountKey \<mapsto> currentFailures + 1);
            delay = js_index backoffDelays
                      (min currentFailures (int (length backoffDelays) - 1))
        in (delay, m'))"

text \<open>
  A series of evaluations of the callback, threading the counters through; the delays
  are returned in the order of the evaluations. The list holds the data of the query at
  each evaluation. Nothing in the hook evaluates the callback: it is handed to
  \<^verbatim>\<open>useQuery\<close>, and the query library evaluates it whenever it recomputes the interval
  (when the observer is set up, on a render, on an update of the query), so that one
  completed check may stand in the list several times.
\<close>

fun evaluations :: "ProviderHealthResponse option list \<Rightarrow> failure_counts \<Rightarrow> int option list \<times> failure_counts" where
  "evaluations [] m = ([], m)"
| "evaluations (d # ds) m =
     (case refetchInterval d m of (delay, m') \<Rightarrow>
        (case evaluations ds m' of (delays, m'') \<Rightarrow> (delay # delays, m'')))"

text \<open>A report with the given status and nothing else, as far as the callback looks.\<close>

definition report_with :: "HealthStatus \<Rightarrow> ProviderHealthResponse" where
  "report_with s = \<lparr>status = Some s, message = Some ''ok'', provider = Some ''unknown'',
     llm_provider = None, embedding_provider = None, llm_error = None,
     embedding_error = None, details = None\<rparr>"

subsection \<open>The health check\<close>

text \<open>
  What a \<^verbatim>\<open>catch\<close> receives: an instance of \<^verbatim>\<open>Error\<close> with its \<^verbatim>\<open>message\<close>, or any
  other thrown value.
\<close>

datatype thrown = ErrorInstance string | OtherThrown

text \<open>A settled promise.\<close>

datatype 'a promise = Fulfilled 'a | Rejected thrown

text \<open>
  The \<^verbatim>\<open>Response\<close> of \<^verbatim>\<open>fetch\<close>, as far as the check reads it: the status code and
  the outcome of \<^verbatim>\<open>response.json()\<close>, which rejects when the body does not parse.
  \<^verbatim>\<open>response.ok\<close> is true for the status codes 200 to 299.
\<close>

record Response =
  status_code :: nat
  json :: "ProviderHealthResponse promise"

definition ok :: "Response \<Rightarrow> bool" where
  "ok r = (200 \<le> status_code r \<and> status_code r \<le> 299)"

text \<open>
  \<^verbatim>\<open>a || b\<close> on strings that may be undefined: the left operand when it is truthy
  (defined and not the empty string), else the right one.
\<close>

definition or_else :: "string option \<Rightarrow> string option \<Rightarrow> string option" where
  "or_else a b = (case a of None \<Rightarrow> b | Some s \<Rightarrow> if s = [] then b else Some s)"

text \<open>\<^verbatim>\<open>params?.provider\<close>, as the string of the union's value.\<close>

definition provider_of :: "ProviderHealthParams option \<Rightarrow> string option" where
  "provider_of params =
     (case params of None \<Rightarrow> None
      | Some p \<Rightarrow> map_option provider_name (params_provider p))"

text \<open>
  The URL that is fetched: \<^verbatim>\<open>new URL("/api/provider/health", window.location.origin)\<close>,
  with the \<^verbatim>\<open>provider\<close> search parameter when one is given.
\<close>

definition health_url :: "string \<Rightarrow> ProviderHealthParams option \<Rightarrow> string" where
  "health_url origin params =
     origin @ ''/api/provider/health'' @
       (case provider_of params of None \<Rightarrow> [] | Some p \<Rightarrow> ''?provider='' @ p)"

text \<open>
  The object built on a 503 response (\<open>Unhealthy\<close>, \<^verbatim>\<open>"Provider validation failed"\<close>)
  and on any other failure response (\<open>ErrorStatus\<close>,
  \<^verbatim>\<open>"Failed to check provider health"\<close>) from \<^verbatim>\<open>errorData\<close>.
\<close>

definition failure_report ::
  "HealthStatus \<Rightarrow> string \<Rightarrow> ProviderHealthParams option \<Rightarrow> ProviderHealthResponse
     \<Rightarrow> ProviderHealthResponse" where
  "failure_report st fallback params errorData =
     \<lparr>status = Some st,
      message = or_else (message errorData) (Some fallback),
      provider = or_else (or_else (provider errorData) (provider_of params)) (Some ''unknown''),
      llm_provider = llm_provider errorData,
      embedding_provider = embedding_provider errorData,
      llm_error = llm_error errorData,
      embedding_error = embedding_error errorData,
      details = details errorData\<rparr>"

text \<open>The empty object \<^verbatim>\<open>{}\<close> of \<^verbatim>\<open>.catch(() => ({}))\<close>.\<close>

definition empty_object :: ProviderHealthResponse where
  "empty_object = \<lparr>status = None, message = None, provider = None, llm_provider = None,
     embedding_provider = None, llm_error = None, embedding_error = None, details = None\<rparr>"

text \<open>\<^verbatim>\<open>await response.json().catch(() => ({}))\<close>.\<close>

definition json_or_empty :: "Response \<Rightarrow> ProviderHealthResponse" where
  "json_or_empty response =
     (case json response of Fulfilled body \<Rightarrow> body | Rejected e \<Rightarrow> empty_object)"

text \<open>
  The body of the \<^verbatim>\<open>try\<close> block: \<open>Inl\<close> is a value thrown inside it (by \<^verbatim>\<open>fetch\<close>,
  or by \<^verbatim>\<open>response.json()\<close> on the success path, where nothing catches the rejection),
  \<open>Inr\<close> a returned value. \<open>fetch\<close> is the outcome of the request for a URL.
\<close>

definition try_block ::
  "string \<Rightarrow> ProviderHealthParams option \<Rightarrow> (string \<Rightarrow> Response promise)
     \<Rightarrow> thrown + ProviderHealthResponse" where
  "try_block origin params fetch =
     (case fetch (health_url origin params) of
        Rejected e \<Rightarrow> Inl e
      | Fulfilled response \<Rightarrow>
          if ok response then
            (case json response of Rejected e \<Rightarrow> Inl e | Fulfilled body \<Rightarrow> Inr body)
          else if status_code response = 503 then
            Inr (failure_report Unhealthy ''Provider validation failed'' params
                   (json_or_empty response))
          else
            Inr (failure_report ErrorStatus ''Failed to check provider health'' params
                   (json_or_empty response)))"

text \<open>The object returned by the \<^verbatim>\<open>catch\<close> block.\<close>

definition catch_block :: "ProviderHealthParams option \<Rightarrow> thrown \<Rightarrow> ProviderHealthResponse" where
  "catch_block params error =
     \<lparr>status = Some BackendUnavailable,
      message = Some (case error of ErrorInstance msg \<Rightarrow> msg | OtherThrown \<Rightarrow> ''Connection failed''),
      provider = or_else (provider_of params) (Some ''unknown''),
      llm_provider = None, embedding_provider = None, llm_error = None,
      embedding_error = None, details = None\<rparr>"

text \<open>
  \<^verbatim>\<open>checkProviderHealth\<close>: the promise the async function settles to.
\<close>

definition checkProviderHealth ::
  "string \<Rightarrow> ProviderHealthParams option \<Rightarrow> (string \<Rightarrow> Response promise)
     \<Rightarrow> ProviderHealthResponse promise" where
  "checkProviderHealth origin params fetch =
     (case try_block origin params fetch of
        Inl error \<Rightarrow> Fulfilled (catch_block params error)
      | Inr report \<Rightarrow> Fulfilled report)"

subsection \<open>The options handed to the query library\<close>

text \<open>
  The data of \<^verbatim>\<open>useGetSettingsQuery\<close>, as far as the hook reads it: the property
  \<^verbatim>\<open>edited\<close>, which may be missing.
\<close>

record Settings =
  edited :: "bool option"

text \<open>
  The caller's \<^verbatim>\<open>options\<close>, restricted to the properties that the hook sets itself. For
  each property \<open>None\<close> means that the object has no such key. A key \<^verbatim>\<open>enabled\<close> may be
  present with the value \<^verbatim>\<open>undefined\<close>, which is \<open>Some None\<close>. (The callback forms of
  these options and the remaining options of the library are left out.)
\<close>

record CallerOptions =
  opt_retry :: "bool option"
  opt_refetchOnWindowFocus :: "bool option"
  opt_refetchOnMount :: "bool option"
  opt_staleTime :: "int option"
  opt_enabled :: "bool option option"

text \<open>The object literal passed to \<^verbatim>\<open>useQuery\<close>, with the same restriction.\<close>

record QueryOptions =
  retry :: bool
  refetchOnWindowFocus :: bool
  refetchOnMount :: bool
  staleTime :: int
  enabled :: "bool option"

text \<open>
  \<^verbatim>\<open>!!settings?.edited && options?.enabled !== false\<close>, where \<^verbatim>\<open>settings\<close> defaults to
  \<^verbatim>\<open>{}\<close> when the settings query has no data.
\<close>

definition enabled_gate :: "Settings option \<Rightarrow> CallerOptions option \<Rightarrow> bool" where
  "enabled_gate settings options =
     ((case settings of None \<Rightarrow> False | Some s \<Rightarrow> edited s = Some True) \<and>
      (case options of None \<Rightarrow> True | Some opts \<Rightarrow> opt_enabled opts \<noteq> Some (Some False)))"

text \<open>
  A property of the literal followed by the spread \<^verbatim>\<open>...options\<close>: a key of
  \<^verbatim>\<open>options\<close> replaces the value written before it.
\<close>

definition spread :: "'a \<Rightarrow> CallerOptions option \<Rightarrow> (CallerOptions \<Rightarrow> 'a option) \<Rightarrow> 'a" where
  "spread written options key =
     (case options of None \<Rightarrow> written
      | Some opts \<Rightarrow> (case key opts of None \<Rightarrow> written | Some v \<Rightarrow> v))"

text \<open>The options object that \<^verbatim>\<open>useProviderHealthQuery\<close> passes to \<^verbatim>\<open>useQuery\<close>.\<close>

definition useProviderHealthQuery_options ::
  "Settings option \<Rightarrow> CallerOptions option \<Rightarrow> QueryOptions" where
  "useProviderHealthQuery_options settings options =
     \<lparr>retry = spread False options opt_retry,
      refetchOnWindowFocus = spread False options opt_refetchOnWindowFocus,
      refetchOnMount = spread True options opt_refetchOnMount,
      staleTime = spread 30000 options opt_staleTime,
      enabled = spread (Some (enabled_gate settings options)) options opt_enabled\<rparr>"

subsection \<open>The invariant of the failure counters\<close>

text \<open>Every stored counter, for every key, is at least \<open>0\<close>.\<close>

definition counters_nonneg :: "failure_counts \<Rightarrow> bool" where
  "counters_nonneg m = (\<forall>k v. m k = Some v \<longrightarrow> 0 \<le> v)"

subsection \<open>Basic facts about the callback\<close>

lemma failureCountKey_eq: "failureCountKey = ''provider-health''"
  by (simp add: failureCountKey_def queryKey_def)

lemma backoff_index:
  "0 \<le> c \<Longrightarrow> js_index backoffDelays (min c (int (length backoffDelays) - 1)) =
     Some (if c = 0 then 5000 else if c = 1 then 10000 else if c = 2 then 20000 else 30000)"
proof -
  assume c: "0 \<le> c"
  consider "c = 0" | "c = 1" | "c = 2" | "3 \<le> c" using c by linarith
  then show ?thesis
  proof cases
    case 4
    then have "min c (int (length backoffDelays) - 1) = 3"
      by (simp add: backoffDelays_def)
    with 4 show ?thesis by (simp add: js_index_def backoffDelays_def)
  qed (simp_all add: js_index_def backoffDelays_def)
qed

lemma get_or_zero_upd [simp]: "get_or_zero (m(k \<mapsto> v)) k = v"
  by (simp add: get_or_zero_def)

lemma get_or_zero_empty [simp]: "get_or_zero Map.empty k = 0"
  by (simp add: get_or_zero_def)

lemma get_or_zero_nonneg: "counters_nonneg m \<Longrightarrow> 0 \<le> get_or_zero m k"
  by (auto simp: counters_nonneg_def get_or_zero_def split: option.splits)

lemma refetch_healthy:
  "status d = Some Healthy \<Longrightarrow>
     refetchInterval (Some d) m = (Some 30000, m(failureCountKey \<mapsto> 0))"
  by (simp add: refetchInterval_def)

lemma refetch_unavailable:
  "status d = Some BackendUnavailable \<Longrightarrow> refetchInterval (Some d) m = (Some 15000, m)"
  by (simp add: refetchInterval_def)

lemma refetch_failure:
  "status d = Some Unhealthy \<or> status d = Some ErrorStatus \<or> status d = None \<Longrightarrow>
     refetchInterval (Some d) m =
       (js_index backoffDelays
          (min (get_or_zero m failureCountKey) (int (length backoffDelays) - 1)),
        m(failureCountKey \<mapsto> get_or_zero m failureCountKey + 1))"
  by (auto simp: refetchInterval_def Let_def)

lemma refetch_undefined:
  "refetchInterval None m =
     (js_index backoffDelays
        (min (get_or_zero m failureCountKey) (int (length backoffDelays) - 1)),
      m(failureCountKey \<mapsto> get_or_zero m failureCountKey + 1))"
  by (simp add: refetchInterval_def Let_def)

lemma status_report_with [simp]: "status (report_with s) = Some s"
  by (simp add: report_with_def)

lemma refetch_failure_delay:
  "status d = Some Unhealthy \<or> status d = Some ErrorStatus \<or> status d = None \<Longrightarrow>
   0 \<le> get_or_zero m failureCountKey \<Longrightarrow>
   refetchInterval (Some d) m =
     (Some (if get_or_zero m failureCountKey = 0 then 5000
            else if get_or_zero m failureCountKey = 1 then 10000
            else if get_or_zero m failureCountKey = 2 then 20000 else 30000),
      m(failureCountKey \<mapsto> get_or_zero m failureCountKey + 1))"
  by (simp only: refetch_failure backoff_index)

lemma evaluations_Cons:
  "evaluations (d # ds) m =
     (fst (refetchInterval d m) # fst (evaluations ds (snd (refetchInterval d m))),
      snd (evaluations ds (snd (refetchInterval d m))))"
  by (simp split: prod.splits)

lemma evaluations_append:
  "evaluations (xs @ ys) m =
     (fst (evaluations xs m) @ fst (evaluations ys (snd (evaluations xs m))), snd (evaluations ys (snd (evaluations xs m))))"
  by (induction xs arbitrary: m) (simp_all add: evaluations_Cons del: evaluations.simps(2))

lemma evaluations_single: "evaluations [d] m = ([fst (refetchInterval d m)], snd (refetchInterval d m))"
  by (simp add: evaluations_Cons del: evaluations.simps(2))

lemma refetch_preserves_nonneg:
  "counters_nonneg m \<Longrightarrow> counters_nonneg (snd (refetchInterval d m))"
proof -
  assume inv: "counters_nonneg m"
  then have c: "0 \<le> get_or_zero m failureCountKey" by (rule get_or_zero_nonneg)
  from inv c show ?thesis
    by (auto simp: refetchInterval_def Let_def counters_nonneg_def split: option.splits if_splits)
qed

lemma evaluations_preserve_nonneg:
  "counters_nonneg m \<Longrightarrow> counters_nonneg (snd (evaluations ds m))"
proof (induction ds arbitrary: m)
  case Nil
  then show ?case by simp
next
  case (Cons d ds)
  have "counters_nonneg (snd (refetchInterval d m))"
    using Cons.prems by (rule refetch_preserves_nonneg)
  then have "counters_nonneg (snd (evaluations ds (snd (refetchInterval d m))))"
    by (rule Cons.IH)
  then show ?case by (simp add: evaluations_Cons del: evaluations.simps(2))
qed

lemma ok_json_update: "ok (r\<lparr>json := j\<rparr>) = ok r"
  by (simp add: ok_def)

lemma provider_name_nonempty: "provider_name p \<noteq> []"
  by (cases p) simp_all

lemma provider_or_unknown:
  "or_else (provider_of params) (Some ''unknown'') =
     Some (case provider_of params of None \<Rightarrow> ''unknown'' | Some p \<Rightarrow> p)"
  by (auto simp: or_else_def provider_of_def provider_name_nonempty split: option.splits)

lemma failure_report_empty:
  "failure_report st fallback params empty_object =
     \<lparr>status = Some st, message = Some fallback,
      provider = Some (case provider_of params of None \<Rightarrow> ''unknown'' | Some p \<Rightarrow> p),
      llm_provider = None, embedding_provider = None, llm_error = None,
      embedding_error = None, details = None\<rparr>"
proof -
  have "or_else (or_else None (provider_of params)) (Some ''unknown'') =
          Some (case provider_of params of None \<Rightarrow> ''unknown'' | Some p \<Rightarrow> p)"
    using provider_or_unknown [of params] by (simp add: or_else_def)
  then show ?thesis
    by (simp add: failure_report_def empty_object_def or_else_def)
qed

subsection \<open>The backoff counts evaluations\<close>




subsection \<open>The counters are never negative\<close>

text \<open>
  Claim C9. In every state reached from the empty map by a series of evaluations of the
  callback, however many there are for each check, every counter is at least \<open>0\<close>, and
  every evaluation keeps it so: the counters of other keys are never written, an
  evaluation on a \<^verbatim>\<open>backend-unavailable\<close> report leaves the map as it is, one on a
  \<^verbatim>\<open>healthy\<close> report stores \<open>0\<close>, and one on an \<^verbatim>\<open>unhealthy\<close> or \<^verbatim>\<open>error\<close> report
  stores the counter plus one.
\<close>

theorem counters_never_negative:
  "counters_nonneg (snd (evaluations ds Map.empty)) \<and>
   (counters_nonneg m \<longrightarrow> counters_nonneg (snd (refetchInterval d m))) \<and>
   (\<forall>k. k \<noteq> failureCountKey \<longrightarrow> snd (refetchInterval d m) k = m k) \<and>
   (\<forall>r. d = Some r \<and> status r = Some BackendUnavailable \<longrightarrow> snd (refetchInterval d m) = m) \<and>
   (\<forall>r. d = Some r \<and> status r = Some Healthy \<longrightarrow>
        snd (refetchInterval d m) failureCountKey = Some 0) \<and>
   (\<forall>r. d = Some r \<and> (status r = Some Unhealthy \<or> status r = Some ErrorStatus) \<longrightarrow>
        snd (refetchInterval d m) failureCountKey = Some (get_or_zero m failureCountKey + 1))"
proof -
  have "counters_nonneg Map.empty" by (simp add: counters_nonneg_def)
  then have reach: "counters_nonneg (snd (evaluations ds Map.empty))"
    by (rule evaluations_preserve_nonneg)
  have frame: "\<forall>k. k \<noteq> failureCountKey \<longrightarrow> snd (refetchInterval d m) k = m k"
    by (simp add: refetchInterval_def Let_def)
  show ?thesis
    using reach frame
    by (auto simp: refetch_preserves_nonneg refetch_unavailable refetch_healthy refetch_failure)
qed


theorem counters_never_negative_witness:
  "counters_nonneg (snd (evaluations [Some (report_with ErrorStatus),
      Some (report_with BackendUnavailable), Some (report_with Unhealthy)] Map.empty)) \<and>
   snd (evaluations [Some (report_with ErrorStatus), Some (report_with BackendUnavailable),
               Some (report_with Unhealthy)] Map.empty) failureCountKey = Some 2 \<and>
   snd (refetchInterval (Some (report_with Healthy)) [failureCountKey \<mapsto> 2]) failureCountKey =
     Some 0"
proof -
  let ?run = "[Some (report_with ErrorStatus), Some (report_with BackendUnavailable),
               Some (report_with Unhealthy)]"
  have e: "snd (evaluations ?run Map.empty) failureCountKey = Some 2"
    by (simp add: evaluations_Cons refetch_failure_delay refetch_unavailable del: evaluations.simps(2))
  have inv: "counters_nonneg [failureCountKey \<mapsto> 2]"
    by (simp add: counters_nonneg_def)
  show ?thesis
    using e inv
      counters_never_negative [of ?run "[failureCountKey \<mapsto> 2]" "Some (report_with Healthy)"]
    by simp
qed


text \<open>
  Claim C10. With no data yet the callback takes the path of \<^verbatim>\<open>unhealthy\<close> and
  \<^verbatim>\<open>error\<close>: it returns the entry of the table for the counter before the increment
  and stores the counter plus one, exactly as for a report with status \<^verbatim>\<open>error\<close>. On the
  empty map that is 5000 ms and the counter \<open>1\<close>, so that a following evaluation on an
  \<^verbatim>\<open>error\<close> report gives 10000 ms.
\<close>

theorem undefined_data_takes_failure_path:
  "refetchInterval None m =
     (js_index backoffDelays
        (min (get_or_zero m failureCountKey) (int (length backoffDelays) - 1)),
      m(failureCountKey \<mapsto> get_or_zero m failureCountKey + 1)) \<and>
   refetchInterval None m = refetchInterval (Some (report_with ErrorStatus)) m \<and>
   refetchInterval None Map.empty = (Some 5000, [failureCountKey \<mapsto> 1]) \<and>
   fst (evaluations [None, Some (report_with ErrorStatus)] Map.empty) = [Some 5000, Some 10000]"
proof -
  have a: "refetchInterval (Some (report_with ErrorStatus)) m = refetchInterval None m"
    by (simp add: refetch_failure refetch_undefined)
  have b: "refetchInterval None Map.empty = (Some 5000, [failureCountKey \<mapsto> 1])"
    by (simp add: refetch_undefined js_index_def backoffDelays_def)
  have c: "fst (evaluations [None, Some (report_with ErrorStatus)] Map.empty) = [Some 5000, Some 10000]"
    by (simp add: evaluations_Cons b refetch_failure_delay del: evaluations.simps(2))
  show ?thesis using a b c by (simp add: refetch_undefined)
qed


subsection \<open>The health check never rejects\<close>

text \<open>
  Claim C4. When \<^verbatim>\<open>fetch\<close> throws or rejects, the check is fulfilled with a report of
  status \<^verbatim>\<open>backend-unavailable\<close>, whose message is the message of the \<^verbatim>\<open>Error\<close> or
  \<^verbatim>\<open>"Connection failed"\<close> for any other thrown value, whose provider is the requested
  one or \<^verbatim>\<open>"unknown"\<close>, and which has no other property.
\<close>

theorem fetch_failure_is_backend_unavailable:
  assumes "fetch (health_url origin params) = Rejected e"
  shows "checkProviderHealth origin params fetch =
     Fulfilled \<lparr>status = Some BackendUnavailable,
       message = Some (case e of ErrorInstance msg \<Rightarrow> msg | OtherThrown \<Rightarrow> ''Connection failed''),
       provider = Some (case provider_of params of None \<Rightarrow> ''unknown'' | Some p \<Rightarrow> p),
       llm_provider = None, embedding_provider = None, llm_error = None,
       embedding_error = None, details = None\<rparr>"
  using assms
  by (simp add: checkProviderHealth_def try_block_def catch_block_def provider_or_unknown)


theorem fetch_failure_is_backend_unavailable_witness:
  "(\<lambda>url. Rejected (ErrorInstance ''Failed to fetch'') :: Response promise)
      (health_url ''http://localhost:3000'' (Some \<lparr>params_provider = Some Ollama\<rparr>)) =
     Rejected (ErrorInstance ''Failed to fetch'') \<and>
   checkProviderHealth ''http://localhost:3000'' (Some \<lparr>params_provider = Some Ollama\<rparr>)
     (\<lambda>url. Rejected (ErrorInstance ''Failed to fetch'')) =
     Fulfilled \<lparr>status = Some BackendUnavailable, message = Some ''Failed to fetch'',
       provider = Some ''ollama'',
       llm_provider = None, embedding_provider = None, llm_error = None,
       embedding_error = None, details = None\<rparr> \<and>
   checkProviderHealth ''http://localhost:3000'' None (\<lambda>url. Rejected OtherThrown) =
     Fulfilled \<lparr>status = Some BackendUnavailable, message = Some ''Connection failed'',
       provider = Some ''unknown'',
       llm_provider = None, embedding_provider = None, llm_error = None,
       embedding_error = None, details = None\<rparr>"
  using fetch_failure_is_backend_unavailable [of "\<lambda>url. Rejected (ErrorInstance ''Failed to fetch'')"
      "''http://localhost:3000''" "Some \<lparr>params_provider = Some Ollama\<rparr>"
      "ErrorInstance ''Failed to fetch''"]
    fetch_failure_is_backend_unavailable [of "\<lambda>url. Rejected OtherThrown"
      "''http://localhost:3000''" None OtherThrown]
  by (simp add: provider_of_def)


text \<open>
  Claim C5, for the responses with a status code outside 200 to 299. When the body of
  such a response does not parse, the empty object stands in for it before the
  properties are read: the check is fulfilled with what it gives for the same response
  with the body \<^verbatim>\<open>{}\<close>, the report with the status of the code (\<^verbatim>\<open>unhealthy\<close> for 503,
  \<^verbatim>\<open>error\<close> otherwise), the default message, the requested provider or \<^verbatim>\<open>"unknown"\<close>,
  and no other property.
\<close>

theorem unparseable_failure_body_defaults:
  assumes "fetch (health_url origin params) = Fulfilled response"
    and "json response = Rejected e"
    and "\<not> ok response"
  shows "checkProviderHealth origin params fetch =
           checkProviderHealth origin params
             (\<lambda>url. Fulfilled (response\<lparr>json := Fulfilled empty_object\<rparr>)) \<and>
         checkProviderHealth origin params fetch =
           Fulfilled
             \<lparr>status = Some (if status_code response = 503 then Unhealthy else ErrorStatus),
              message = Some (if status_code response = 503 then ''Provider validation failed''
                              else ''Failed to check provider health''),
              provider = Some (case provider_of params of None \<Rightarrow> ''unknown'' | Some p \<Rightarrow> p),
              llm_provider = None, embedding_provider = None, llm_error = None,
              embedding_error = None, details = None\<rparr>"
  using assms
  by (simp add: checkProviderHealth_def try_block_def ok_json_update json_or_empty_def
      failure_report_empty)

theorem unparseable_failure_body_defaults_witness:
  "\<not> ok \<lparr>status_code = 500, json = Rejected OtherThrown\<rparr> \<and>
   checkProviderHealth ''http://localhost:3000'' None
     (\<lambda>url. Fulfilled \<lparr>status_code = 500, json = Rejected OtherThrown\<rparr>) =
     Fulfilled \<lparr>status = Some ErrorStatus, message = Some ''Failed to check provider health'',
       provider = Some ''unknown'',
       llm_provider = None, embedding_provider = None, llm_error = None,
       embedding_error = None, details = None\<rparr> \<and>
   \<not> ok \<lparr>status_code = 503, json = Rejected (ErrorInstance ''Unexpected token'')\<rparr> \<and>
   checkProviderHealth ''http://localhost:3000'' (Some \<lparr>params_provider = Some Openai\<rparr>)
     (\<lambda>url. Fulfilled \<lparr>status_code = 503,
        json = Rejected (ErrorInstance ''Unexpected token'')\<rparr>) =
     Fulfilled \<lparr>status = Some Unhealthy, message = Some ''Provider validation failed'',
       provider = Some ''openai'',
       llm_provider = None, embedding_provider = None, llm_error = None,
       embedding_error = None, details = None\<rparr>"
  using unparseable_failure_body_defaults [of
      "\<lambda>url. Fulfilled \<lparr>status_code = 500, json = Rejected OtherThrown\<rparr>"
      "''http://localhost:3000''" None "\<lparr>status_code = 500, json = Rejected OtherThrown\<rparr>"
      OtherThrown]
    unparseable_failure_body_defaults [of
      "\<lambda>url. Fulfilled \<lparr>status_code = 503,
        json = Rejected (ErrorInstance ''Unexpected token'')\<rparr>"
      "''http://localhost:3000''" "Some \<lparr>params_provider = Some Openai\<rparr>"
      "\<lparr>status_code = 503, json = Rejected (ErrorInstance ''Unexpected token'')\<rparr>"
      "ErrorInstance ''Unexpected token''"]
  by (auto simp add: ok_def provider_of_def)

text \<open>
  Claim C5 as stated, for a response with a success status code as well, does not hold.
  On that branch \<^verbatim>\<open>response.json()\<close> has no \<^verbatim>\<open>.catch\<close>, so nothing stands in for the
  body: for a 200 response with an unparseable body the check does not give what the
  empty object in place of the body would give, but the report of the \<^verbatim>\<open>catch\<close> block.
\<close>

theorem unparseable_success_body_counterexample:
  "checkProviderHealth ''http://localhost:3000'' None
     (\<lambda>url. Fulfilled \<lparr>status_code = 200,
        json = Rejected (ErrorInstance ''Unexpected end of JSON input'')\<rparr>) =
     Fulfilled \<lparr>status = Some BackendUnavailable,
       message = Some ''Unexpected end of JSON input'', provider = Some ''unknown'',
       llm_provider = None, embedding_provider = None, llm_error = None,
       embedding_error = None, details = None\<rparr> \<and>
   checkProviderHealth ''http://localhost:3000'' None
     (\<lambda>url. Fulfilled \<lparr>status_code = 200,
        json = Rejected (ErrorInstance ''Unexpected end of JSON input'')\<rparr>) \<noteq>
   checkProviderHealth ''http://localhost:3000'' None
     (\<lambda>url. Fulfilled \<lparr>status_code = 200, json = Fulfilled empty_object\<rparr>)"
  by (simp add: checkProviderHealth_def try_block_def ok_def catch_block_def provider_of_def
      or_else_def empty_object_def)


text \<open>
  Claim C7. A 503 response whose body does not parse gives the report with status
  \<^verbatim>\<open>unhealthy\<close>, the message \<^verbatim>\<open>"Provider validation failed"\<close>, the requested provider
  or \<^verbatim>\<open>"unknown"\<close>, and every other property undefined.
\<close>

theorem unparseable_503_is_unhealthy:
  assumes "fetch (health_url origin params) = Fulfilled response"
    and "status_code response = 503"
    and "json response = Rejected e"
  shows "checkProviderHealth origin params fetch =
     Fulfilled \<lparr>status = Some Unhealthy, message = Some ''Provider validation failed'',
       provider = Some (case provider_of params of None \<Rightarrow> ''unknown'' | Some p \<Rightarrow> p),
       llm_provider = None, embedding_provider = None, llm_error = None,
       embedding_error = None, details = None\<rparr>"
  using assms
  by (simp add: checkProviderHealth_def try_block_def ok_def json_or_empty_def failure_report_empty)


theorem unparseable_503_is_unhealthy_witness:
  "status_code \<lparr>status_code = 503, json = Rejected (ErrorInstance ''Unexpected token'')\<rparr> = 503 \<and>
   json \<lparr>status_code = 503, json = Rejected (ErrorInstance ''Unexpected token'')\<rparr> =
     Rejected (ErrorInstance ''Unexpected token'') \<and>
   checkProviderHealth ''http://localhost:3000'' (Some \<lparr>params_provider = Some Watsonx\<rparr>)
     (\<lambda>url. Fulfilled \<lparr>status_code = 503, json = Rejected (ErrorInstance ''Unexpected token'')\<rparr>) =
     Fulfilled \<lparr>status = Some Unhealthy, message = Some ''Provider validation failed'',
       provider = Some ''watsonx'',
       llm_provider = None, embedding_provider = None, llm_error = None,
       embedding_error = None, details = None\<rparr>"
  using unparseable_503_is_unhealthy [of
      "\<lambda>url. Fulfilled \<lparr>status_code = 503, json = Rejected (ErrorInstance ''Unexpected token'')\<rparr>"
      "''http://localhost:3000''" "Some \<lparr>params_provider = Some Watsonx\<rparr>"
      "\<lparr>status_code = 503, json = Rejected (ErrorInstance ''Unexpected token'')\<rparr>"
      "ErrorInstance ''Unexpected token''"]
  by (simp add: provider_of_def)


text \<open>
  Claim C8. A response with a status code from 200 to 299 whose body parses gives that
  body, with nothing replaced, defaulted or added.
\<close>

theorem success_body_returned_verbatim:
  assumes "fetch (health_url origin params) = Fulfilled response"
    and "ok response"
    and "json response = Fulfilled body"
  shows "checkProviderHealth origin params fetch = Fulfilled body"
  using assms by (simp add: checkProviderHealth_def try_block_def)


theorem success_body_returned_verbatim_witness:
  "ok \<lparr>status_code = 200, json = Fulfilled
      \<lparr>status = Some Healthy, message = Some ''ok'', provider = None,
       llm_provider = None, embedding_provider = None, llm_error = None,
       embedding_error = None,
       details = Some \<lparr>llm_model = ''m1'', embedding_model = ''m2'', endpoint = None\<rparr>\<rparr>\<rparr> \<and>
   checkProviderHealth ''http://localhost:3000'' None
     (\<lambda>url. Fulfilled \<lparr>status_code = 200, json = Fulfilled
      \<lparr>status = Some Healthy, message = Some ''ok'', provider = None,
       llm_provider = None, embedding_provider = None, llm_error = None,
       embedding_error = None,
       details = Some \<lparr>llm_model = ''m1'', embedding_model = ''m2'', endpoint = None\<rparr>\<rparr>\<rparr>) =
     Fulfilled \<lparr>status = Some Healthy, message = Some ''ok'', provider = None,
       llm_provider = None, embedding_provider = None, llm_error = None,
       embedding_error = None,
       details = Some \<lparr>llm_model = ''m1'', embedding_model = ''m2'', endpoint = None\<rparr>\<rparr>"
  using success_body_returned_verbatim [of
      "\<lambda>url. Fulfilled \<lparr>status_code = 200, json = Fulfilled
      \<lparr>status = Some Healthy, message = Some ''ok'', provider = None,
       llm_provider = None, embedding_provider = None, llm_error = None,
       embedding_error = None,
       details = Some \<lparr>llm_model = ''m1'', embedding_model = ''m2'', endpoint = None\<rparr>\<rparr>\<rparr>"
      "''http://localhost:3000''" None
      "\<lparr>status_code = 200, json = Fulfilled
      \<lparr>status = Some Healthy, message = Some ''ok'', provider = None,
       llm_provider = None, embedding_provider = None, llm_error = None,
       embedding_error = None,
       details = Some \<lparr>llm_model = ''m1'', embedding_model = ''m2'', endpoint = None\<rparr>\<rparr>\<rparr>"]
  by (simp add: ok_def)


subsection \<open>The gate on polling\<close>

text \<open>
  Claim C6 asks that no poll is issued while \<^verbatim>\<open>settings.edited\<close> is false, whatever
  the caller's options are. The hook computes that gate, but spreads \<^verbatim>\<open>...options\<close>
  after it: with \<^verbatim>\<open>settings.edited\<close> false and \<^verbatim>\<open>options = {enabled: true}\<close> the gate
  is false and the \<^verbatim>\<open>enabled\<close> option that reaches \<^verbatim>\<open>useQuery\<close> is true.
\<close>

theorem spread_overrides_enabled_gate:
  "enabled_gate (Some \<lparr>edited = Some False\<rparr>)
     (Some \<lparr>opt_retry = None, opt_refetchOnWindowFocus = None, opt_refetchOnMount = None,
            opt_staleTime = None, opt_enabled = Some (Some True)\<rparr>) = False \<and>
   enabled (useProviderHealthQuery_options (Some \<lparr>edited = Some False\<rparr>)
     (Some \<lparr>opt_retry = None, opt_refetchOnWindowFocus = None, opt_refetchOnMount = None,
            opt_staleTime = None, opt_enabled = Some (Some True)\<rparr>)) = Some True"
  by (simp add: enabled_gate_def useProviderHealthQuery_options_def spread_def)

end
